theory Spec2Isabelle
  imports Complex_Main "HOL-Library.Sublist"
begin

section \<open>Galaxy classification notebook: the notebook's own functions\<close>

text \<open>
  The notebook \<^verbatim>\<open>random_forest.ipynb\<close> defines three helpers
  (\<^verbatim>\<open>generate_features_targets\<close>, \<^verbatim>\<open>calculate_accuracy\<close>,
  \<^verbatim>\<open>plot_confusion_matrix\<close>), the function \<^verbatim>\<open>rf_predict_actual\<close> and a main
  script. Everything else it calls belongs to numpy, scikit-learn and matplotlib.

  One-dimensional numpy arrays are lists. Python exceptions are values of the type
  \<open>error\<close>; a function that can raise returns \<open>error + 'a\<close>, with \<open>Inl\<close> the exception.
\<close>

subsection \<open>Exceptions\<close>

text \<open>
  \<open>ShapeMismatch\<close> stands for what an elementwise operation on two arrays of shapes
  that do not broadcast ends in. An assignment or a division raises ValueError. For the
  comparison it depends on the numpy version: either the comparison itself raises
  ValueError, or it yields the scalar \<^verbatim>\<open>False\<close>, on which the builtin \<^verbatim>\<open>sum\<close> raises
  TypeError. \<open>Raised\<close> carries the class name of any other exception a library call
  raises.
\<close>

datatype error =
    ZeroDivisionError
  | ShapeMismatch
  | ValueError
  | Raised string

subsection \<open>numpy: broadcasting, two-dimensional arrays, scalar operations\<close>

text \<open>
  An elementwise binary operation on two one-dimensional arrays: position by position
  on equal lengths, an array of length one is broadcast against the other, every other
  pair of lengths is a shape mismatch.
\<close>

definition np_elementwise :: "('a \<Rightarrow> 'b \<Rightarrow> 'c) \<Rightarrow> 'a list \<Rightarrow> 'b list \<Rightarrow> error + 'c list" where
  "np_elementwise f xs ys =
     (if length xs = length ys then Inr (map (\<lambda>(x, y). f x y) (zip xs ys))
      else if length ys = 1 then Inr (map (\<lambda>x. f x (hd ys)) xs)
      else if length xs = 1 then Inr (map (\<lambda>y. f (hd xs) y) ys)
      else Inl ShapeMismatch)"

text \<open>
  A two-dimensional array is its shape and its cells; only the cells inside the shape
  mean anything.
\<close>

record 'v matrix =
  nrows :: nat
  ncols :: nat
  cell :: "nat \<Rightarrow> nat \<Rightarrow> 'v"

text \<open>
  The notebook never looks inside a numpy scalar: it only hands scalars to numpy's own
  operations. The scalar type \<open>'v\<close> (an int64 or a float64) and these operations are
  therefore parameters of the model, and so is the memory that \<^verbatim>\<open>np.empty\<close> returns
  uninitialised.
\<close>

record 'v numpy =
  int64 :: "int \<Rightarrow> 'v"
  astype_float :: "'v \<Rightarrow> 'v"
  true_divide :: "'v \<Rightarrow> 'v \<Rightarrow> 'v"
  add :: "'v \<Rightarrow> 'v \<Rightarrow> 'v"
  maximum :: "'v \<Rightarrow> 'v \<Rightarrow> 'v"
  greater :: "'v \<Rightarrow> 'v \<Rightarrow> bool"
  float_2 :: 'v
  format :: "'v \<Rightarrow> string"
  uninitialised :: "nat \<Rightarrow> nat \<Rightarrow> 'v"
  uninitialised_str :: "nat \<Rightarrow> string"

definition np_empty :: "'v numpy \<Rightarrow> nat \<Rightarrow> nat \<Rightarrow> 'v matrix" where
  "np_empty np n m = \<lparr>nrows = n, ncols = m, cell = uninitialised np\<rparr>"

text \<open>
  \<^verbatim>\<open>a[:, j] = col\<close>: the column \<open>j\<close> of every row is overwritten. (The cast of the
  assigned values to the dtype of \<open>a\<close> is part of the scalar type \<open>'v\<close> and not
  modelled.)
\<close>

definition set_column :: "'v matrix \<Rightarrow> nat \<Rightarrow> 'v list \<Rightarrow> error + 'v matrix" where
  "set_column a j col =
     (if length col = nrows a
      then Inr (a\<lparr>cell := (\<lambda>i k. if k = j \<and> i < nrows a then col ! i else cell a i k)\<rparr>)
      else if length col = 1
      then Inr (a\<lparr>cell := (\<lambda>i k. if k = j \<and> i < nrows a then hd col else cell a i k)\<rparr>)
      else Inl ShapeMismatch)"

text \<open>
  A cell of dtype \<^verbatim>\<open><U20\<close> holds at most 20 characters: numpy stores the first 20
  characters of a longer string and raises nothing. \<^verbatim>\<open>t[:] = values\<close> overwrites every
  cell of \<open>t\<close>.
\<close>

definition store_U20 :: "string \<Rightarrow> string" where
  "store_U20 s = take 20 s"

definition np_empty_U20 :: "'v numpy \<Rightarrow> nat \<Rightarrow> string list" where
  "np_empty_U20 np n = map (\<lambda>i. store_U20 (uninitialised_str np i)) [0..<n]"

definition assign_all_U20 :: "string list \<Rightarrow> string list \<Rightarrow> error + string list" where
  "assign_all_U20 t values =
     (if length values = length t then Inr (map store_U20 values)
      else if length values = 1 then Inr (map (\<lambda>_. store_U20 (hd values)) t)
      else Inl ShapeMismatch)"

definition bind_err :: "error + 'a \<Rightarrow> ('a \<Rightarrow> error + 'b) \<Rightarrow> error + 'b" where
  "bind_err m f = (case m of Inl e \<Rightarrow> Inl e | Inr x \<Rightarrow> f x)"

subsection \<open>generate\_features\_targets\<close>

text \<open>
  A row of the galaxy catalogue, a numpy structured array: the fields the notebook
  reads. \<open>galaxy_class\<close> is the field \<^verbatim>\<open>'class'\<close>, \<open>u_g\<close> the field \<^verbatim>\<open>'u-g'\<close>, and
  so on. One \<open>char\<close> stands for one character of a label.
\<close>

record 'v galaxy =
  u_g :: 'v
  g_r :: 'v
  r_i :: 'v
  i_z :: 'v
  ecc :: 'v
  m4_u :: 'v
  m4_g :: 'v
  m4_r :: 'v
  m4_i :: 'v
  m4_z :: 'v
  petroR50_u :: 'v
  petroR90_u :: 'v
  petroR50_r :: 'v
  petroR90_r :: 'v
  petroR50_z :: 'v
  petroR90_z :: 'v
  galaxy_class :: string

text \<open>
  \<^verbatim>\<open>
  def generate_features_targets(data):
      output_targets = np.empty(shape=(len(data)), dtype='<U20')
      output_targets[:] = data['class']

      input_features = np.empty(shape=(len(data), 13))
      input_features[:, 0] = data['u-g']
      input_features[:, 1] = data['g-r']
      input_features[:, 2] = data['r-i']
      input_features[:, 3] = data['i-z']
      input_features[:, 4] = data['ecc']
      input_features[:, 5] = data['m4_u']
      input_features[:, 6] = data['m4_g']
      input_features[:, 7] = data['m4_r']
      input_features[:, 8] = data['m4_i']
      input_features[:, 9] = data['m4_z']
      input_features[:, 10] = data['petroR50_u'] / data['petroR90_u']
      input_features[:, 11] = data['petroR50_r'] / data['petroR90_r']
      input_features[:, 12] = data['petroR50_z'] / data['petroR90_z']

      return input_features, output_targets
  \<close>
\<close>

definition generate_features_targets ::
  "'v numpy \<Rightarrow> 'v galaxy list \<Rightarrow> error + ('v matrix \<times> string list)" where
  "generate_features_targets np data =
     bind_err (assign_all_U20 (np_empty_U20 np (length data)) (map galaxy_class data))
       (\<lambda>output_targets.
     bind_err (set_column (np_empty np (length data) 13) 0 (map u_g data)) (\<lambda>f0.
     bind_err (set_column f0 1 (map g_r data)) (\<lambda>f1.
     bind_err (set_column f1 2 (map r_i data)) (\<lambda>f2.
     bind_err (set_column f2 3 (map i_z data)) (\<lambda>f3.
     bind_err (set_column f3 4 (map ecc data)) (\<lambda>f4.
     bind_err (set_column f4 5 (map m4_u data)) (\<lambda>f5.
     bind_err (set_column f5 6 (map m4_g data)) (\<lambda>f6.
     bind_err (set_column f6 7 (map m4_r data)) (\<lambda>f7.
     bind_err (set_column f7 8 (map m4_i data)) (\<lambda>f8.
     bind_err (set_column f8 9 (map m4_z data)) (\<lambda>f9.
     bind_err (np_elementwise (true_divide np) (map petroR50_u data) (map petroR90_u data))
       (\<lambda>conc_u.
     bind_err (set_column f9 10 conc_u) (\<lambda>f10.
     bind_err (np_elementwise (true_divide np) (map petroR50_r data) (map petroR90_r data))
       (\<lambda>conc_r.
     bind_err (set_column f10 11 conc_r) (\<lambda>f11.
     bind_err (np_elementwise (true_divide np) (map petroR50_z data) (map petroR90_z data))
       (\<lambda>conc_z.
     bind_err (set_column f11 12 conc_z) (\<lambda>input_features.
     Inr (input_features, output_targets))))))))))))))))))"

subsection \<open>calculate\_accuracy\<close>

text \<open>
  \<^verbatim>\<open>
  def calculate_accuracy(predicted_classes, actual_classes, ):
      return sum(actual_classes[:] == predicted_classes[:]) / len(actual_classes)
  \<close>
  Both arguments are one-dimensional numpy arrays; \<^verbatim>\<open>==\<close> is numpy's elementwise
  comparison.
\<close>

definition np_equal :: "'a list \<Rightarrow> 'a list \<Rightarrow> error + bool list" where
  "np_equal xs ys = np_elementwise (\<lambda>x y. x = y) xs ys"

text \<open>
  The builtin \<^verbatim>\<open>sum\<close> starts from the integer 0 and adds the elements from left to
  right; a boolean counts as 1 or 0.
\<close>

definition py_sum :: "bool list \<Rightarrow> int" where
  "py_sum bs = foldl (\<lambda>acc b. acc + (if b then 1 else 0)) 0 bs"

text \<open>
  True division of two integers. Python raises ZeroDivisionError on a zero divisor and
  otherwise returns the double nearest to the quotient; the model keeps the exact
  quotient as a rational. (The sum of an empty array is the Python integer 0, so the
  division of the empty case is Python's, not numpy's.)
\<close>

definition py_truediv :: "int \<Rightarrow> int \<Rightarrow> error + rat" where
  "py_truediv a b = (if b = 0 then Inl ZeroDivisionError else Inr (of_int a / of_int b))"

definition calculate_accuracy :: "'a list \<Rightarrow> 'a list \<Rightarrow> error + rat" where
  "calculate_accuracy predicted_classes actual_classes =
     bind_err (np_equal actual_classes predicted_classes)
       (\<lambda>eq. py_truediv (py_sum eq) (int (length actual_classes)))"

subsection \<open>Console output and drawing as a trace\<close>

text \<open>
  What the notebook prints and what it draws with \<^verbatim>\<open>matplotlib.pyplot\<close> is recorded
  as a trace of events, in the order of execution, each with its arguments. A run is
  the trace together with the exception or the value the code ends in: the events
  before an exception have happened and stay in the trace.
\<close>

datatype 'v printable = Str string | Matrix "'v matrix" | Number rat

datatype 'v event =
    Print "'v printable list"
  | Plt_figure
  | Plt_imshow "'v matrix" string string
  | Plt_title string
  | Plt_colorbar
  | Plt_xticks "nat list" "string list" nat
  | Plt_yticks "nat list" "string list"
  | Plt_text nat nat string string string
  | Plt_tight_layout
  | Plt_ylabel string
  | Plt_xlabel string
  | Plt_show

type_synonym ('v, 'a) run = "'v event list \<times> (error + 'a)"

definition emits :: "'v event list \<Rightarrow> ('v, unit) run" where
  "emits evs = (evs, Inr ())"

text \<open>
  Sequencing: the second part runs on the value of the first, its trace follows the
  trace of the first; an exception of the first part ends the run. The trace may hold
  events or, for the main script, calls.
\<close>

definition then_run ::
  "'t list \<times> (error + 'a) \<Rightarrow> ('a \<Rightarrow> 't list \<times> (error + 'b)) \<Rightarrow> 't list \<times> (error + 'b)" where
  "then_run m f =
     (case snd m of
        Inl e \<Rightarrow> (fst m, Inl e)
      | Inr x \<Rightarrow> (fst m @ fst (f x), snd (f x)))"

subsection \<open>plot\_confusion\_matrix\<close>

text \<open>
  \<^verbatim>\<open>
  def plot_confusion_matrix(cm, classes, normalize=False,
                            title='Confusion matrix', cmap=plt.cm.Blues):
      plt.imshow(cm, interpolation='nearest', cmap=cmap)
      plt.title(title)
      plt.colorbar()
      tick_marks = np.arange(len(classes))
      plt.xticks(tick_marks, classes, rotation=45)
      plt.yticks(tick_marks, classes)

      if normalize:
          cm = cm.astype('float') / cm.sum(axis=1)[:, np.newaxis]
          print("Normalized confusion matrix")
      else:
          print('Confusion matrix, without normalization')

      print(cm)

      thresh = cm.max() / 2.
      for i, j in itertools.product(range(cm.shape[0]), range(cm.shape[1])):
          plt.text(j, i, "{}".format(cm[i, j]),
                   horizontalalignment="center",
                   color="white" if cm[i, j] > thresh else "black")

      plt.tight_layout()
      plt.ylabel('True Class')
      plt.xlabel('Predicted Class')
  \<close>

  \<open>List.product\<close> enumerates the pairs in the order of \<^verbatim>\<open>itertools.product\<close>: the
  first component varies slowest. The argument \<^verbatim>\<open>normalize\<close> is written
  \<open>normalize'\<close>. The \<^verbatim>\<open>if\<close> statement prints one line and leaves in \<^verbatim>\<open>cm\<close> the
  matrix that the rest of the function works on. numpy's reductions: the sum of a row
  is 0 for a row without cells; the maximum of an array without cells raises
  ValueError; a division by zero gives a warning and no exception.
\<close>

definition np_sum :: "'v numpy \<Rightarrow> 'v list \<Rightarrow> 'v" where
  "np_sum np xs = (case xs of [] \<Rightarrow> int64 np 0 | x # rest \<Rightarrow> foldl (add np) x rest)"

definition row_sum :: "'v numpy \<Rightarrow> 'v matrix \<Rightarrow> nat \<Rightarrow> 'v" where
  "row_sum np a i = np_sum np (map (cell a i) [0..<ncols a])"

definition indices :: "'v matrix \<Rightarrow> (nat \<times> nat) list" where
  "indices a = List.product [0..<nrows a] [0..<ncols a]"

definition np_max :: "'v numpy \<Rightarrow> 'v matrix \<Rightarrow> error + 'v" where
  "np_max np a =
     (case map (\<lambda>(i, j). cell a i j) (indices a) of
        [] \<Rightarrow> Inl ValueError
      | x # rest \<Rightarrow> Inr (foldl (maximum np) x rest))"

definition normalized :: "'v numpy \<Rightarrow> 'v matrix \<Rightarrow> 'v matrix" where
  "normalized np cm =
     cm\<lparr>cell := (\<lambda>i j. true_divide np (astype_float np (cell cm i j)) (row_sum np cm i))\<rparr>"

definition annotation :: "'v numpy \<Rightarrow> 'v matrix \<Rightarrow> 'v \<Rightarrow> nat \<times> nat \<Rightarrow> 'v event" where
  "annotation np cm thresh = (\<lambda>(i, j).
     Plt_text j i (format np (cell cm i j)) ''center''
       (if greater np (cell cm i j) thresh then ''white'' else ''black''))"

definition plot_confusion_matrix ::
  "'v numpy \<Rightarrow> 'v matrix \<Rightarrow> string list \<Rightarrow> bool \<Rightarrow> string \<Rightarrow> string \<Rightarrow> ('v, unit) run" where
  "plot_confusion_matrix np cm classes normalize' title cmap =
     then_run (emits [Plt_imshow cm ''nearest'' cmap, Plt_title title, Plt_colorbar,
                      Plt_xticks [0..<length classes] classes 45,
                      Plt_yticks [0..<length classes] classes]) (\<lambda>_.
     then_run (if normalize'
               then ([Print [Str ''Normalized confusion matrix'']], Inr (normalized np cm))
               else ([Print [Str ''Confusion matrix, without normalization'']], Inr cm))
       (\<lambda>cm.
     then_run (emits [Print [Matrix cm]]) (\<lambda>_.
     then_run ([], bind_err (np_max np cm) (\<lambda>m. Inr (true_divide np m (float_2 np))))
       (\<lambda>thresh.
     then_run (emits (map (annotation np cm thresh) (indices cm))) (\<lambda>_.
     emits [Plt_tight_layout, Plt_ylabel ''True Class'', Plt_xlabel ''Predicted Class''])))))"

subsection \<open>The library calls of the main script\<close>

text \<open>
  Modelled from the spec: \<^verbatim>\<open>sklearn.metrics.confusion_matrix(y_true, y_pred, labels)\<close>
  is a library function, absent from the repository's files. The specification asks
  for a confusion matrix indexed by class label; the definition follows the way the
  library computes it: the arguments are checked (samples of inconsistent numbers, no
  label, no label that occurs in \<open>y_true\<close> raise ValueError), every label is given its
  index in \<open>labels\<close> by a dictionary built from left to right (a label listed twice
  keeps its last index), the samples whose true and predicted labels both have an index
  are kept, and the kept samples are counted per pair of indices.
\<close>

definition label_to_ind :: "string list \<Rightarrow> (string \<rightharpoonup> nat)" where
  "label_to_ind labels = fold (\<lambda>(x, y) d. d(y \<mapsto> x)) (enumerate 0 labels) Map.empty"

definition index_of :: "string list \<Rightarrow> string \<Rightarrow> nat" where
  "index_of labels x = (case label_to_ind labels x of None \<Rightarrow> length labels + 1 | Some k \<Rightarrow> k)"

definition coo_toarray :: "nat \<Rightarrow> (nat \<times> nat) list \<Rightarrow> int matrix" where
  "coo_toarray n entries =
     \<lparr>nrows = n, ncols = n,
      cell = fold (\<lambda>(t, p) c. c(t := (c t)(p := c t p + 1))) entries (\<lambda>_ _. 0)\<rparr>"

definition confusion_matrix :: "string list \<Rightarrow> string list \<Rightarrow> string list \<Rightarrow> error + int matrix" where
  "confusion_matrix y_true y_pred labels =
     (if length y_true \<noteq> length y_pred then Inl ValueError
      else if labels = [] then Inl ValueError
      else if y_true = []
      then Inr \<lparr>nrows = length labels, ncols = length labels, cell = (\<lambda>_ _. 0)\<rparr>
      else if list_all (\<lambda>l. l \<notin> set y_true) labels then Inl ValueError
      else Inr (coo_toarray (length labels)
                  (filter (\<lambda>(t, p). p < length labels \<and> t < length labels)
                     (zip (map (index_of labels) y_true) (map (index_of labels) y_pred)))))"

text \<open>
  The other library calls are parameters: reading the catalogue file, building the
  classifier, the cross-validated prediction. Each returns \<open>error + 'a\<close>. So is the
  order in which Python iterates over a set, which the hash table decides:
  \<open>set_order lib xs\<close> ranks the elements of \<^verbatim>\<open>set(xs)\<close>.
\<close>

record ('v, 'c) library =
  numpy :: "'v numpy"
  np_load :: "string \<Rightarrow> error + 'v galaxy list"
  RandomForestClassifier :: "nat \<Rightarrow> error + 'c"
  cross_val_predict :: "'c \<Rightarrow> 'v matrix \<Rightarrow> string list \<Rightarrow> nat \<Rightarrow> error + string list"
  set_order :: "string list \<Rightarrow> string \<Rightarrow> nat"

text \<open>
  \<^verbatim>\<open>list(set(xs))\<close>: every element of \<open>xs\<close> once, by increasing rank (elements of
  the same rank in the order in which they last occur in \<open>xs\<close>). Every order of the
  distinct elements is that of some ranking.
\<close>

definition list_of_set :: "('v, 'c) library \<Rightarrow> string list \<Rightarrow> string list" where
  "list_of_set lib xs = sort_key (set_order lib xs) (remdups xs)"

subsection \<open>rf\_predict\_actual and the main script\<close>

text \<open>
  The trace of the main script holds every call it makes, with the arguments the call
  receives, and the console output and drawing in between. \<open>call c result\<close> is a call
  recorded as \<open>c\<close> that ends in \<open>result\<close>.
\<close>

datatype ('v, 'c) action =
    Np_load string
  | Generate_features_targets "'v galaxy list"
  | Sk_RandomForestClassifier nat
  | Sk_cross_val_predict 'c "'v matrix" "string list" nat
  | Calculate_accuracy "string list" "string list"
  | Sk_confusion_matrix "string list" "string list" "string list"
  | Plot_confusion_matrix "'v matrix" "string list" bool
  | Output "'v event"

definition call :: "('v, 'c) action \<Rightarrow> error + 'a \<Rightarrow> ('v, 'c) action list \<times> (error + 'a)" where
  "call c result = ([c], result)"

text \<open>A call recorded as \<open>c\<close> of a function that leaves a trace of its own.\<close>

definition call_run ::
  "('v, 'c) action \<Rightarrow> ('v, 'c) action list \<times> (error + 'a)
     \<Rightarrow> ('v, 'c) action list \<times> (error + 'a)" where
  "call_run c r = (c # fst r, snd r)"

definition outputs :: "('v, 'a) run \<Rightarrow> ('v, 'c) action list \<times> (error + 'a)" where
  "outputs r = (map Output (fst r), snd r)"

text \<open>
  \<^verbatim>\<open>
  def rf_predict_actual(data, n_estimators):
    features, targets = generate_features_targets(data)
    rfc = RandomForestClassifier(n_estimators=n_estimators)
    predicted = cross_val_predict(rfc, features, targets, cv=10)
    return predicted, targets
  \<close>
\<close>

definition rf_predict_actual ::
  "('v, 'c) library \<Rightarrow> 'v galaxy list \<Rightarrow> nat
     \<Rightarrow> ('v, 'c) action list \<times> (error + string list \<times> string list)" where
  "rf_predict_actual lib data n_estimators =
     then_run (call (Generate_features_targets data)
                 (generate_features_targets (numpy lib) data)) (\<lambda>(features, targets).
     then_run (call (Sk_RandomForestClassifier n_estimators)
                 (RandomForestClassifier lib n_estimators)) (\<lambda>rfc.
     then_run (call (Sk_cross_val_predict rfc features targets 10)
                 (cross_val_predict lib rfc features targets 10)) (\<lambda>predicted.
     ([], Inr (predicted, targets)))))"

text \<open>
  \<^verbatim>\<open>
  if __name__ == "__main__":
    data = np.load('galaxy_catalogue.npy')
    number_estimators = 50
    predicted, actual = rf_predict_actual(data, number_estimators)
    accuracy = calculate_accuracy(predicted, actual)
    print("Accuracy score:", accuracy)
    class_labels = list(set(actual))
    model_cm = confusion_matrix(y_true=actual, y_pred=predicted, labels=class_labels)
    plt.figure()
    plot_confusion_matrix(model_cm, classes=class_labels, normalize=False)
    plt.show()
  \<close>
  The script assigns module variables; a run that ends without exception returns their
  values (\<open>final_data\<close> is the variable \<^verbatim>\<open>data\<close>, and so on). \<open>as_int64\<close> is the matrix
  of integers that scikit-learn returns as a numpy array.
\<close>

record 'v variables =
  final_data :: "'v galaxy list"
  final_number_estimators :: nat
  final_predicted :: "string list"
  final_actual :: "string list"
  final_accuracy :: rat
  final_class_labels :: "string list"
  final_model_cm :: "int matrix"

definition as_int64 :: "'v numpy \<Rightarrow> int matrix \<Rightarrow> 'v matrix" where
  "as_int64 np a = \<lparr>nrows = nrows a, ncols = ncols a, cell = (\<lambda>i j. int64 np (cell a i j))\<rparr>"

definition main :: "('v, 'c) library \<Rightarrow> ('v, 'c) action list \<times> (error + 'v variables)" where
  "main lib =
     then_run (call (Np_load ''galaxy_catalogue.npy'')
                 (np_load lib ''galaxy_catalogue.npy'')) (\<lambda>data.
     let number_estimators = 50 in
     then_run (rf_predict_actual lib data number_estimators) (\<lambda>(predicted, actual).
     then_run (call (Calculate_accuracy predicted actual)
                 (calculate_accuracy predicted actual)) (\<lambda>accuracy.
     then_run (outputs (emits [Print [Str ''Accuracy score:'', Number accuracy]])) (\<lambda>_.
     let class_labels = list_of_set lib actual in
     then_run (call (Sk_confusion_matrix actual predicted class_labels)
                 (confusion_matrix actual predicted class_labels)) (\<lambda>model_cm.
     then_run (outputs (emits [Plt_figure])) (\<lambda>_.
     then_run (call_run
                 (Plot_confusion_matrix (as_int64 (numpy lib) model_cm) class_labels False)
                 (outputs (plot_confusion_matrix (numpy lib) (as_int64 (numpy lib) model_cm)
                             class_labels False ''Confusion matrix'' ''Blues''))) (\<lambda>_.
     then_run (outputs (emits [Plt_show])) (\<lambda>_.
     ([], Inr \<lparr>final_data = data, final_number_estimators = number_estimators,
                final_predicted = predicted, final_actual = actual,
                final_accuracy = accuracy, final_class_labels = class_labels,
                final_model_cm = model_cm\<rparr>)))))))))"

subsection \<open>Reading a feature matrix, and the layout the specification gives\<close>

definition row_of :: "'v matrix \<Rightarrow> nat \<Rightarrow> 'v list" where
  "row_of a i = map (cell a i) [0..<ncols a]"

definition rows_of :: "'v matrix \<Rightarrow> 'v list list" where
  "rows_of a = map (row_of a) [0..<nrows a]"

text \<open>
  The feature row of one galaxy in the words of the specification: four colour
  indices, the eccentricity, five fourth moments, three concentration ratios. This
  definition is written from the specification, not from the code, and is what
  \<open>generate_features_targets\<close> is compared with.
\<close>

definition feature_layout :: "'v numpy \<Rightarrow> 'v galaxy \<Rightarrow> 'v list" where
  "feature_layout np g =
     [u_g g, g_r g, r_i g, i_z g,
      ecc g,
      m4_u g, m4_g g, m4_r g, m4_i g, m4_z g,
      true_divide np (petroR50_u g) (petroR90_u g),
      true_divide np (petroR50_r g) (petroR90_r g),
      true_divide np (petroR50_z g) (petroR90_z g)]"

subsection \<open>Reading a trace\<close>

fun is_text :: "'v event \<Rightarrow> bool" where
  "is_text (Plt_text _ _ _ _ _) = True"
| "is_text _ = False"

text \<open>\<^verbatim>\<open>plt.text(x, y, ...)\<close> at the cell of row \<open>i\<close> and column \<open>j\<close> has x = j and y = i.\<close>

fun text_at :: "nat \<Rightarrow> nat \<Rightarrow> 'v event \<Rightarrow> bool" where
  "text_at i j (Plt_text x y _ _ _) = (x = j \<and> y = i)"
| "text_at i j _ = False"

fun image_of :: "'v event \<Rightarrow> 'v matrix list" where
  "image_of (Plt_imshow a _ _) = [a]"
| "image_of _ = []"

fun printed_matrix_of :: "'v event \<Rightarrow> 'v matrix list" where
  "printed_matrix_of (Print [Matrix a]) = [a]"
| "printed_matrix_of _ = []"

text \<open>The matrices handed to \<^verbatim>\<open>plt.imshow\<close>, and the matrices printed.\<close>

definition images :: "'v event list \<Rightarrow> 'v matrix list" where
  "images tr = concat (map image_of tr)"

definition printed_matrices :: "'v event list \<Rightarrow> 'v matrix list" where
  "printed_matrices tr = concat (map printed_matrix_of tr)"

text \<open>
  What the local variable \<^verbatim>\<open>cm\<close> of \<^verbatim>\<open>plot_confusion_matrix\<close> holds after the
  \<^verbatim>\<open>if normalize\<close> statement.
\<close>

definition shown :: "'v numpy \<Rightarrow> 'v matrix \<Rightarrow> bool \<Rightarrow> 'v matrix" where
  "shown np cm normalize' = (if normalize' then normalized np cm else cm)"

subsection \<open>Concrete inputs\<close>

text \<open>
  An instance of the numpy parameters on exact rationals and a catalogue row, used
  where the model is evaluated on concrete inputs. \<open>exact_format\<close> prints an integer in
  decimal and any other rational as numerator/denominator. The concrete inputs below
  never divide by zero, where the rationals and numpy's floats would differ.
\<close>

fun decimal :: "nat \<Rightarrow> string" where
  "decimal n = (if n < 10 then [''0123456789'' ! n]
                else decimal (n div 10) @ [''0123456789'' ! (n mod 10)])"

declare decimal.simps [simp del]

definition exact_format :: "rat \<Rightarrow> string" where
  "exact_format r =
     (case quotient_of r of (n, d) \<Rightarrow>
        (if n < 0 then ''-'' else []) @ decimal (nat \<bar>n\<bar>)
        @ (if d = 1 then [] else ''/'' @ decimal (nat d)))"

definition exact_numpy :: "rat numpy" where
  "exact_numpy =
     \<lparr>int64 = of_int, astype_float = (\<lambda>x. x), true_divide = (\<lambda>a b. a / b),
      add = (\<lambda>a b. a + b), maximum = max, greater = (\<lambda>a b. b < a), float_2 = 2,
      format = exact_format, uninitialised = (\<lambda>_ _. 0), uninitialised_str = (\<lambda>_. [])\<rparr>"

definition example_galaxy :: "string \<Rightarrow> rat galaxy" where
  "example_galaxy label =
     \<lparr>u_g = 1, g_r = 2, r_i = 3, i_z = 4, ecc = 5,
      m4_u = 6, m4_g = 7, m4_r = 8, m4_i = 9, m4_z = 10,
      petroR50_u = 1, petroR90_u = 2, petroR50_r = 1, petroR90_r = 4,
      petroR50_z = 3, petroR90_z = 4, galaxy_class = label\<rparr>"

definition example_cm :: "int matrix" where
  "example_cm = \<lparr>nrows = 2, ncols = 2, cell = (\<lambda>i j. [[2, 0], [1, 3]] ! i ! j)\<rparr>"

definition empty_cm :: "int matrix" where
  "empty_cm = \<lparr>nrows = 0, ncols = 0, cell = (\<lambda>i j. 0)\<rparr>"

text \<open>
  A library for a concrete run: the catalogue has three rows, the cross-validation
  predicts \<^verbatim>\<open>'spiral'\<close> for each, and the set order ranks all labels alike, which
  lists them in the order of their last occurrence.
\<close>

definition example_library :: "(rat, nat) library" where
  "example_library =
     \<lparr>numpy = exact_numpy,
      np_load = (\<lambda>file. if file = ''galaxy_catalogue.npy''
                         then Inr [example_galaxy ''spiral'', example_galaxy ''merger'',
                                   example_galaxy ''spiral'']
                         else Inl (Raised ''FileNotFoundError'')),
      RandomForestClassifier = (\<lambda>n_estimators. Inr n_estimators),
      cross_val_predict = (\<lambda>rfc features targets cv. Inr (map (\<lambda>_. ''spiral'') targets)),
      set_order = (\<lambda>xs x. 0)\<rparr>"

section \<open>Properties\<close>

subsection \<open>Sequencing\<close>

lemma bind_err_Inr [simp]: "bind_err (Inr x) f = f x"
  by (simp add: bind_err_def)

lemma bind_err_Inl [simp]: "bind_err (Inl e) f = Inl e"
  by (simp add: bind_err_def)

subsection \<open>Counting the equal positions\<close>

lemma foldl_count_shift:
  "foldl (\<lambda>acc b. acc + (if b then 1 else 0)) (k::int) bs
     = k + int (length (filter id bs))"
  by (induction bs arbitrary: k) auto

lemma py_sum_count: "py_sum bs = int (length (filter id bs))"
  by (simp add: py_sum_def foldl_count_shift)

lemma count_positions:
  "length (filter P (map f [0..<n])) = card {k. k < n \<and> P (f k)}"
proof -
  have "length (filter P (map f [0..<n])) = length (filter (\<lambda>k. P (f k)) [0..<n])"
    by (simp add: filter_map comp_def)
  also have "\<dots> = card (set (filter (\<lambda>k. P (f k)) [0..<n]))"
    by (rule distinct_card[symmetric]) simp
  also have "set (filter (\<lambda>k. P (f k)) [0..<n]) = {k. k < n \<and> P (f k)}"
    by auto
  finally show ?thesis .
qed

lemma zip_as_positions:
  assumes "length xs = length ys"
  shows "map (\<lambda>(x, y). x = y) (zip xs ys) = map (\<lambda>i. xs ! i = ys ! i) [0..<length xs]"
  using assms by (intro nth_equalityI) auto

lemma equal_positions_count:
  assumes "length xs = length ys"
  shows "py_sum (map (\<lambda>(x, y). x = y) (zip xs ys))
           = int (card {i. i < length xs \<and> xs ! i = ys ! i})"
  using count_positions[of id "\<lambda>i. xs ! i = ys ! i" "length xs"]
  by (simp only: py_sum_count zip_as_positions[OF assms] id_apply)

text \<open>
  C1. For two label arrays of the same length, the actual one non-empty,
  \<open>calculate_accuracy\<close> returns the number of positions at which the two arrays hold
  the same label, divided by the length of the actual array.
\<close>

theorem calculate_accuracy_fraction:
  assumes "length predicted_classes = length actual_classes"
    and "actual_classes \<noteq> []"
  shows "calculate_accuracy predicted_classes actual_classes
           = Inr (of_nat (card {i. i < length actual_classes
                                   \<and> actual_classes ! i = predicted_classes ! i})
                  / of_nat (length actual_classes))"
proof -
  have eq: "np_equal actual_classes predicted_classes
              = Inr (map (\<lambda>(x, y). x = y) (zip actual_classes predicted_classes))"
    using assms(1) by (simp add: np_equal_def np_elementwise_def)
  have len: "int (length actual_classes) \<noteq> 0"
    using assms(2) by simp
  show ?thesis
    unfolding calculate_accuracy_def eq
    using len equal_positions_count[of actual_classes predicted_classes] assms(1)
    by (simp add: py_truediv_def)
qed

theorem calculate_accuracy_fraction_witness:
  "length [''spiral'', ''merger'', ''spiral''] = length [''spiral'', ''spiral'', ''spiral'']
   \<and> [''spiral'', ''spiral'', ''spiral''] \<noteq> []
   \<and> calculate_accuracy [''spiral'', ''merger'', ''spiral''] [''spiral'', ''spiral'', ''spiral'']
       = Inr (2 / 3)"
proof -
  have "{i. i < length [''spiral'', ''spiral'', ''spiral'']
            \<and> [''spiral'', ''spiral'', ''spiral''] ! i
                = [''spiral'', ''merger'', ''spiral''] ! i} = {0, 2}"
    by (auto simp: less_Suc_eq nth_Cons')
  then have "card {i. i < length [''spiral'', ''spiral'', ''spiral'']
            \<and> [''spiral'', ''spiral'', ''spiral''] ! i
                = [''spiral'', ''merger'', ''spiral''] ! i} = 2"
    by simp
  then show ?thesis
    using calculate_accuracy_fraction
            [of "[''spiral'', ''merger'', ''spiral'']" "[''spiral'', ''spiral'', ''spiral'']"]
    by simp
qed

text \<open>
  C8. \<open>calculate_accuracy\<close> divides by the length of the actual array without a guard.
  For two arrays of the same length: when the actual array is empty the call fails with
  ZeroDivisionError, and when it is non-empty the call returns a value. Whatever the
  predicted array is, a non-empty actual array never leads to ZeroDivisionError.
\<close>

theorem calculate_accuracy_division:
  "(length predicted_classes = length actual_classes \<longrightarrow>
      (actual_classes = [] \<longrightarrow>
         calculate_accuracy predicted_classes actual_classes = Inl ZeroDivisionError)
      \<and> (actual_classes \<noteq> [] \<longrightarrow>
         (\<exists>r. calculate_accuracy predicted_classes actual_classes = Inr r)))
   \<and> (actual_classes \<noteq> [] \<longrightarrow>
         calculate_accuracy predicted_classes actual_classes \<noteq> Inl ZeroDivisionError)"
  by (auto simp: calculate_accuracy_def np_equal_def np_elementwise_def py_truediv_def)

theorem calculate_accuracy_division_witness:
  "calculate_accuracy ([] :: string list) [] = Inl ZeroDivisionError
   \<and> (\<exists>r. calculate_accuracy [''merger''] [''spiral''] = Inr r)
   \<and> calculate_accuracy [''merger'', ''merger'', ''merger''] [''spiral'', ''merger'']
        \<noteq> Inl ZeroDivisionError"
  using calculate_accuracy_division [of "[] :: string list" "[]"]
    calculate_accuracy_division [of "[''merger'']" "[''spiral'']"]
    calculate_accuracy_division [of "[''merger'', ''merger'', ''merger'']" "[''spiral'', ''merger'']"]
  by simp

text \<open>
  Without the equal lengths neither half holds: a non-empty actual array of two labels
  against three predictions ends in the shape error, not in a value; and an empty
  actual array against two predictions ends in the shape error, not in
  ZeroDivisionError.
\<close>

theorem calculate_accuracy_not_total_counterexample:
  "[''spiral'', ''merger''] \<noteq> []
   \<and> calculate_accuracy [''spiral'', ''merger'', ''spiral''] [''spiral'', ''merger'']
        = Inl ShapeMismatch
   \<and> calculate_accuracy [''spiral'', ''merger''] ([] :: string list) = Inl ShapeMismatch"
  by (simp add: calculate_accuracy_def np_equal_def np_elementwise_def)

subsection \<open>The feature matrix and the targets\<close>

lemma set_column_full:
  "length col = nrows a \<Longrightarrow>
   set_column a j col
     = Inr (a\<lparr>cell := (\<lambda>i k. if k = j \<and> i < nrows a then col ! i else cell a i k)\<rparr>)"
  by (simp add: set_column_def)

lemma np_elementwise_same_length:
  "length xs = length ys \<Longrightarrow>
   np_elementwise f xs ys = Inr (map (\<lambda>i. f (xs ! i) (ys ! i)) [0..<length xs])"
  unfolding np_elementwise_def by (auto intro!: nth_equalityI)

lemma assign_all_U20_full:
  "length values = length t \<Longrightarrow> assign_all_U20 t values = Inr (map store_U20 values)"
  by (simp add: assign_all_U20_def)

text \<open>
  No assignment of \<open>generate_features_targets\<close> can fail: every column has the length
  of the table. What is left of the uninitialised memory lies outside the 13 columns.
\<close>

lemma generate_features_targets_value:
  "generate_features_targets np data =
     Inr (\<lparr>nrows = length data, ncols = 13,
           cell = (\<lambda>i k. if i < length data then
                     (if k = 12 then true_divide np (petroR50_z (data ! i)) (petroR90_z (data ! i))
                      else if k = 11 then true_divide np (petroR50_r (data ! i)) (petroR90_r (data ! i))
                      else if k = 10 then true_divide np (petroR50_u (data ! i)) (petroR90_u (data ! i))
                      else if k = 9 then m4_z (data ! i)
                      else if k = 8 then m4_i (data ! i)
                      else if k = 7 then m4_r (data ! i)
                      else if k = 6 then m4_g (data ! i)
                      else if k = 5 then m4_u (data ! i)
                      else if k = 4 then ecc (data ! i)
                      else if k = 3 then i_z (data ! i)
                      else if k = 2 then r_i (data ! i)
                      else if k = 1 then g_r (data ! i)
                      else if k = 0 then u_g (data ! i)
                      else uninitialised np i k)
                   else uninitialised np i k)\<rparr>,
          map (\<lambda>g. store_U20 (galaxy_class g)) data)"
  unfolding generate_features_targets_def
  apply (simp add: set_column_full np_elementwise_same_length assign_all_U20_full
      np_empty_def np_empty_U20_def comp_def)
  apply (intro ext)
  apply auto
  done

lemma upt_13: "[0..<13] = [0, 1, 2, 3, 4, 5, 6, 7, 8, 9, 10, 11, 12::nat]"
  by (simp add: upt_conv_Cons)

text \<open>
  C2. For every table, \<open>generate_features_targets\<close> returns a matrix with one row per
  row of the table and exactly 13 columns, whose rows are laid out as the
  specification says (colour indices u-g, g-r, r-i, i-z in columns 0 to 3, the
  eccentricity in column 4, the fourth moments of u, g, r, i, z in columns 5 to 9, the
  ratios petroR50 / petroR90 of u, r, z in columns 10 to 12), paired with one label per
  row, the \<^verbatim>\<open>'class'\<close> field of that row as a \<^verbatim>\<open><U20\<close> cell holds it.
\<close>

theorem generate_features_targets_layout:
  "\<exists>input_features output_targets.
     generate_features_targets np data = Inr (input_features, output_targets)
     \<and> nrows input_features = length data
     \<and> ncols input_features = 13
     \<and> rows_of input_features = map (feature_layout np) data
     \<and> output_targets = map (\<lambda>g. store_U20 (galaxy_class g)) data"
proof -
  obtain f where f: "generate_features_targets np data
                       = Inr (f, map (\<lambda>g. store_U20 (galaxy_class g)) data)"
    and shape: "nrows f = length data" "ncols f = 13"
    and cells: "\<And>i. i < length data \<Longrightarrow> row_of f i = feature_layout np (data ! i)"
    by (simp add: generate_features_targets_value row_of_def feature_layout_def upt_13)
  have "rows_of f = map (feature_layout np) data"
    by (rule nth_equalityI) (simp_all add: rows_of_def shape cells)
  with f shape show ?thesis by simp
qed

text \<open>
  C10. The targets are stored in a \<^verbatim>\<open><U20\<close> array: for every row, a class label of
  at most 20 characters is returned unchanged and a longer one is cut to its first 20
  characters, without any error.
\<close>

theorem generate_features_targets_U20:
  "\<exists>input_features output_targets.
     generate_features_targets np data = Inr (input_features, output_targets)
     \<and> length output_targets = length data
     \<and> (\<forall>i<length data.
           (length (galaxy_class (data ! i)) \<le> 20 \<longrightarrow>
              output_targets ! i = galaxy_class (data ! i))
         \<and> (20 < length (galaxy_class (data ! i)) \<longrightarrow>
              output_targets ! i = take 20 (galaxy_class (data ! i))))"
  by (simp add: generate_features_targets_value store_U20_def)

theorem generate_features_targets_U20_witness:
  "\<exists>input_features output_targets.
     generate_features_targets exact_numpy
       [example_galaxy ''spiral'', example_galaxy ''elliptical_or_lenticular'']
       = Inr (input_features, output_targets)
     \<and> length output_targets = 2
     \<and> output_targets ! 0 = ''spiral''
     \<and> output_targets ! 1 = ''elliptical_or_lentic''"
proof -
  let ?data = "[example_galaxy ''spiral'', example_galaxy ''elliptical_or_lenticular'']"
  obtain f t where run: "generate_features_targets exact_numpy ?data = Inr (f, t)"
    and len: "length t = length ?data"
    and cells: "\<forall>i<length ?data.
           (length (galaxy_class (?data ! i)) \<le> 20 \<longrightarrow> t ! i = galaxy_class (?data ! i))
         \<and> (20 < length (galaxy_class (?data ! i)) \<longrightarrow>
              t ! i = take 20 (galaxy_class (?data ! i)))"
    using generate_features_targets_U20 [of exact_numpy ?data] by blast
  have "t ! 0 = ''spiral''"
    using cells[rule_format, of 0] by (simp add: example_galaxy_def)
  moreover have "t ! 1 = ''elliptical_or_lentic''"
    using cells[rule_format, of 1] by (simp add: example_galaxy_def)
  ultimately show ?thesis
    using run len by simp
qed

subsection \<open>The trace of plot\_confusion\_matrix\<close>

lemma fst_emits [simp]: "fst (emits evs) = evs"
  by (simp add: emits_def)

lemma snd_emits [simp]: "snd (emits evs) = Inr ()"
  by (simp add: emits_def)

lemma nrows_normalized [simp]: "nrows (normalized np cm) = nrows cm"
  by (simp add: normalized_def)

lemma ncols_normalized [simp]: "ncols (normalized np cm) = ncols cm"
  by (simp add: normalized_def)

lemma indices_normalized [simp]: "indices (normalized np cm) = indices cm"
  by (simp add: indices_def)

lemma is_text_annotation [simp]: "is_text (annotation np cm thresh p)"
  by (cases p) (simp add: annotation_def)

lemma text_at_annotation [simp]: "text_at i j (annotation np cm thresh p) = (p = (i, j))"
  by (cases p) (auto simp: annotation_def)

lemma text_at_annotation_comp:
  "text_at i j \<circ> annotation np cm thresh = (\<lambda>p. p = (i, j))"
  by (rule ext) simp

lemma image_of_annotation [simp]: "image_of (annotation np cm thresh p) = []"
  by (cases p) (simp add: annotation_def)

lemma printed_matrix_of_annotation [simp]:
  "printed_matrix_of (annotation np cm thresh p) = []"
  by (cases p) (simp add: annotation_def)

lemma filter_is_text_annotations [simp]:
  "filter is_text (map (annotation np cm thresh) ps) = map (annotation np cm thresh) ps"
  by (induction ps) auto

text \<open>
  The events of one call, in order. When the maximum fails (the matrix has no cell) the
  trace ends after the two prints.
\<close>

lemma plot_confusion_matrix_trace:
  "fst (plot_confusion_matrix np cm classes normalize' title cmap) =
     [Plt_imshow cm ''nearest'' cmap, Plt_title title, Plt_colorbar,
      Plt_xticks [0..<length classes] classes 45, Plt_yticks [0..<length classes] classes,
      Print [Str (if normalize' then ''Normalized confusion matrix''
                  else ''Confusion matrix, without normalization'')],
      Print [Matrix (shown np cm normalize')]]
     @ (case np_max np (shown np cm normalize') of
          Inl e \<Rightarrow> []
        | Inr m \<Rightarrow>
            map (annotation np (shown np cm normalize') (true_divide np m (float_2 np)))
              (indices cm)
            @ [Plt_tight_layout, Plt_ylabel ''True Class'', Plt_xlabel ''Predicted Class''])"
  by (cases "np_max np (shown np cm normalize')")
     (auto simp: plot_confusion_matrix_def then_run_def emits_def shown_def)

lemma plot_confusion_matrix_result:
  "snd (plot_confusion_matrix np cm classes normalize' title cmap) =
     (case np_max np (shown np cm normalize') of Inl e \<Rightarrow> Inl e | Inr m \<Rightarrow> Inr ())"
  by (cases "np_max np (shown np cm normalize')")
     (auto simp: plot_confusion_matrix_def then_run_def emits_def shown_def)

lemma np_max_Inl: "np_max np a = Inl e \<Longrightarrow> indices a = [] \<and> e = ValueError"
  by (auto simp: np_max_def split: list.splits)

lemma one_pair_in_product:
  assumes "i < n" "j < m"
  shows "length (filter (\<lambda>p. p = (i, j)) (List.product [0..<n] [0..<m])) = 1"
proof -
  have "distinct (List.product [0..<n] [0..<m])"
    by (simp add: distinct_product)
  then have "length (filter (\<lambda>p. p = (i, j)) (List.product [0..<n] [0..<m]))
               = card ({p. p = (i, j)} \<inter> set (List.product [0..<n] [0..<m]))"
    by (rule distinct_length_filter)
  also have "{p. p = (i, j)} \<inter> set (List.product [0..<n] [0..<m]) = {(i, j)}"
    using assms by auto
  finally show ?thesis by simp
qed

lemma one_text_per_cell:
  assumes "np_max np (shown np cm normalize') = Inr m" "i < nrows cm" "j < ncols cm"
  shows "length (filter (text_at i j)
           (fst (plot_confusion_matrix np cm classes normalize' title cmap))) = 1"
  using assms
  by (simp add: plot_confusion_matrix_trace text_at_annotation_comp indices_def
      one_pair_in_product)

lemma upt_2: "[0..<2] = [0, 1::nat]"
  by (simp add: upt_conv_Cons)

lemma np_max_example:
  "np_max exact_numpy (as_int64 exact_numpy example_cm) = Inr 3"
  by (simp add: np_max_def indices_def as_int64_def example_cm_def exact_numpy_def upt_2)

lemma np_max_example_normalized:
  "np_max exact_numpy (normalized exact_numpy (as_int64 exact_numpy example_cm)) = Inr 1"
  by (simp add: np_max_def indices_def as_int64_def example_cm_def exact_numpy_def upt_2
      normalized_def row_sum_def np_sum_def)

lemma np_max_empty:
  "np_max exact_numpy (as_int64 exact_numpy empty_cm) = Inl ValueError"
  by (simp add: np_max_def indices_def as_int64_def empty_cm_def)

lemma exact_format_quarters:
  "exact_format (1 / 4) = ''1/4''" "exact_format (3 / 4) = ''3/4''"
  "exact_format 1 = ''1''" "exact_format 0 = ''0''"
  by code_simp+

text \<open>
  C5. For every matrix \<open>cm\<close>, the text annotations that \<open>plot_confusion_matrix\<close>
  places are those of the Cartesian product of the row indices and the column indices,
  in that order: exactly one on each cell \<open>(i, j)\<close>, showing the value of the cell
  (of \<open>cm\<close> as the function holds it when it annotates), in white when the value is
  greater than the maximum of the matrix divided by 2 and in black otherwise. A matrix
  without cells has no maximum: the call raises before the loop, and there is neither
  a cell nor an annotation.
\<close>

theorem plot_confusion_matrix_annotations:
  "(\<forall>m. np_max np (shown np cm normalize') = Inr m \<longrightarrow>
      filter is_text (fst (plot_confusion_matrix np cm classes normalize' title cmap))
        = map (\<lambda>(i, j).
                 Plt_text j i (format np (cell (shown np cm normalize') i j)) ''center''
                   (if greater np (cell (shown np cm normalize') i j)
                         (true_divide np m (float_2 np))
                    then ''white'' else ''black''))
            (List.product [0..<nrows cm] [0..<ncols cm])
      \<and> (\<forall>i<nrows cm. \<forall>j<ncols cm.
            length (filter (text_at i j)
              (fst (plot_confusion_matrix np cm classes normalize' title cmap))) = 1))
   \<and> (\<forall>e. np_max np (shown np cm normalize') = Inl e \<longrightarrow>
      List.product [0..<nrows cm] [0..<ncols cm] = []
      \<and> filter is_text (fst (plot_confusion_matrix np cm classes normalize' title cmap)) = [])"
proof (intro conjI allI impI)
  fix m assume "np_max np (shown np cm normalize') = Inr m"
  then show "filter is_text (fst (plot_confusion_matrix np cm classes normalize' title cmap))
        = map (\<lambda>(i, j).
                 Plt_text j i (format np (cell (shown np cm normalize') i j)) ''center''
                   (if greater np (cell (shown np cm normalize') i j)
                         (true_divide np m (float_2 np))
                    then ''white'' else ''black''))
            (List.product [0..<nrows cm] [0..<ncols cm])"
    by (simp add: plot_confusion_matrix_trace indices_def annotation_def)
next
  fix m i j
  assume "np_max np (shown np cm normalize') = Inr m" "i < nrows cm" "j < ncols cm"
  then show "length (filter (text_at i j)
              (fst (plot_confusion_matrix np cm classes normalize' title cmap))) = 1"
    by (rule one_text_per_cell)
next
  fix e assume e: "np_max np (shown np cm normalize') = Inl e"
  from np_max_Inl[OF e] show "List.product [0..<nrows cm] [0..<ncols cm] = []"
    by (simp add: shown_def indices_def split: if_splits)
  from e show "filter is_text (fst (plot_confusion_matrix np cm classes normalize' title cmap)) = []"
    by (simp add: plot_confusion_matrix_trace)
qed

theorem plot_confusion_matrix_annotations_witness:
  "np_max exact_numpy (shown exact_numpy (as_int64 exact_numpy example_cm) False) = Inr 3
   \<and> filter is_text (fst (plot_confusion_matrix exact_numpy (as_int64 exact_numpy example_cm)
         [''merger'', ''spiral''] False ''Confusion matrix'' ''Blues''))
       = [Plt_text 0 0 ''2'' ''center'' ''white'', Plt_text 1 0 ''0'' ''center'' ''black'',
          Plt_text 0 1 ''1'' ''center'' ''black'', Plt_text 1 1 ''3'' ''center'' ''white'']
   \<and> length (filter (text_at 1 0)
         (fst (plot_confusion_matrix exact_numpy (as_int64 exact_numpy example_cm)
            [''merger'', ''spiral''] False ''Confusion matrix'' ''Blues''))) = 1
   \<and> np_max exact_numpy (shown exact_numpy (as_int64 exact_numpy empty_cm) False)
       = Inl ValueError
   \<and> filter is_text (fst (plot_confusion_matrix exact_numpy (as_int64 exact_numpy empty_cm)
         [] False ''Confusion matrix'' ''Blues'')) = []"
proof -
  have full: "np_max exact_numpy (shown exact_numpy (as_int64 exact_numpy example_cm) False)
                = Inr 3"
    by (simp add: shown_def np_max_example)
  have none: "np_max exact_numpy (shown exact_numpy (as_int64 exact_numpy empty_cm) False)
                = Inl ValueError"
    by (simp add: shown_def np_max_empty)
  have shape: "(1::nat) < nrows (as_int64 exact_numpy example_cm)"
    "(0::nat) < ncols (as_int64 exact_numpy example_cm)"
    by (simp_all add: as_int64_def example_cm_def)
  note at_example = plot_confusion_matrix_annotations
           [of exact_numpy "as_int64 exact_numpy example_cm" False
               "[''merger'', ''spiral'']" "''Confusion matrix''" "''Blues''"]
  note at_empty = plot_confusion_matrix_annotations
           [of exact_numpy "as_int64 exact_numpy empty_cm" False
               "[]" "''Confusion matrix''" "''Blues''"]
  have texts: "filter is_text (fst (plot_confusion_matrix exact_numpy
         (as_int64 exact_numpy example_cm)
         [''merger'', ''spiral''] False ''Confusion matrix'' ''Blues''))
       = [Plt_text 0 0 ''2'' ''center'' ''white'', Plt_text 1 0 ''0'' ''center'' ''black'',
          Plt_text 0 1 ''1'' ''center'' ''black'', Plt_text 1 1 ''3'' ''center'' ''white'']"
    using at_example full
    by (simp add: shown_def as_int64_def example_cm_def exact_numpy_def upt_2
        exact_format_def decimal.simps)
  have one: "length (filter (text_at 1 0)
         (fst (plot_confusion_matrix exact_numpy (as_int64 exact_numpy example_cm)
            [''merger'', ''spiral''] False ''Confusion matrix'' ''Blues''))) = 1"
    using at_example full shape by blast
  have no_text: "filter is_text (fst (plot_confusion_matrix exact_numpy
         (as_int64 exact_numpy empty_cm) [] False ''Confusion matrix'' ''Blues'')) = []"
    using at_empty none by blast
  show ?thesis
    by (intro conjI) (rule full texts one none no_text)+
qed

text \<open>
  C9. With \<open>normalize\<close> set, the image is drawn from the matrix as it was passed
  (\<^verbatim>\<open>plt.imshow\<close> is the first call, before the branch), while the matrix printed and
  the annotations are the row-normalised one, each cell divided by the sum of its row.
  So at every cell whose normalised value differs from its raw value the image and the
  annotated matrix disagree.
\<close>

theorem plot_confusion_matrix_normalize_image:
  "images (fst (plot_confusion_matrix np cm classes True title cmap)) = [cm]
   \<and> take 1 (fst (plot_confusion_matrix np cm classes True title cmap))
       = [Plt_imshow cm ''nearest'' cmap]
   \<and> printed_matrices (fst (plot_confusion_matrix np cm classes True title cmap))
       = [normalized np cm]
   \<and> (\<forall>i j. cell (normalized np cm) i j
              = true_divide np (astype_float np (cell cm i j)) (row_sum np cm i))
   \<and> (\<forall>m. np_max np (normalized np cm) = Inr m \<longrightarrow>
         filter is_text (fst (plot_confusion_matrix np cm classes True title cmap))
           = map (annotation np (normalized np cm) (true_divide np m (float_2 np)))
               (indices cm))
   \<and> (\<forall>i<nrows cm. \<forall>j<ncols cm.
         true_divide np (astype_float np (cell cm i j)) (row_sum np cm i) \<noteq> cell cm i j \<longrightarrow>
         cell (hd (images (fst (plot_confusion_matrix np cm classes True title cmap)))) i j
           \<noteq> cell (hd (printed_matrices
                        (fst (plot_confusion_matrix np cm classes True title cmap)))) i j)"
proof -
  let ?tr = "fst (plot_confusion_matrix np cm classes True title cmap)"
  have im: "images ?tr = [cm]"
    by (cases "np_max np (normalized np cm)")
       (simp_all add: plot_confusion_matrix_trace images_def shown_def)
  have first: "take 1 ?tr = [Plt_imshow cm ''nearest'' cmap]"
    by (simp add: plot_confusion_matrix_trace)
  have pr: "printed_matrices ?tr = [normalized np cm]"
    by (cases "np_max np (normalized np cm)")
       (simp_all add: plot_confusion_matrix_trace printed_matrices_def shown_def)
  have cells: "\<forall>i j. cell (normalized np cm) i j
              = true_divide np (astype_float np (cell cm i j)) (row_sum np cm i)"
    by (simp add: normalized_def)
  have texts: "\<forall>m. np_max np (normalized np cm) = Inr m \<longrightarrow>
         filter is_text ?tr
           = map (annotation np (normalized np cm) (true_divide np m (float_2 np)))
               (indices cm)"
    by (simp add: plot_confusion_matrix_trace shown_def)
  show ?thesis
    using texts first by (simp add: im pr cells)
qed

theorem plot_confusion_matrix_normalize_image_witness:
  "np_max exact_numpy (normalized exact_numpy (as_int64 exact_numpy example_cm)) = Inr 1
   \<and> filter is_text (fst (plot_confusion_matrix exact_numpy (as_int64 exact_numpy example_cm)
         [''merger'', ''spiral''] True ''Confusion matrix'' ''Blues''))
       = [Plt_text 0 0 ''1'' ''center'' ''white'', Plt_text 1 0 ''0'' ''center'' ''black'',
          Plt_text 0 1 ''1/4'' ''center'' ''black'', Plt_text 1 1 ''3/4'' ''center'' ''white'']
   \<and> cell (hd (images (fst (plot_confusion_matrix exact_numpy
         (as_int64 exact_numpy example_cm)
         [''merger'', ''spiral''] True ''Confusion matrix'' ''Blues'')))) 1 1 = 3
   \<and> cell (hd (printed_matrices (fst (plot_confusion_matrix exact_numpy
         (as_int64 exact_numpy example_cm)
         [''merger'', ''spiral''] True ''Confusion matrix'' ''Blues'')))) 1 1 = 3 / 4"
  using plot_confusion_matrix_normalize_image
           [of exact_numpy "as_int64 exact_numpy example_cm"
               "[''merger'', ''spiral'']" "''Confusion matrix''" "''Blues''"]
        np_max_example_normalized
  by (simp add: as_int64_def example_cm_def exact_numpy_def upt_2 indices_def annotation_def
      normalized_def row_sum_def np_sum_def exact_format_quarters)

subsection \<open>The confusion matrix of the main script\<close>

lemma label_dict_other:
  "x \<notin> set labels \<Longrightarrow>
   fold (\<lambda>(k, y) d. d(y \<mapsto> k)) (enumerate n labels) d0 x = d0 x"
  by (induction labels arbitrary: n d0) auto

lemma label_dict_nth:
  "distinct labels \<Longrightarrow> i < length labels \<Longrightarrow>
   fold (\<lambda>(k, y) d. d(y \<mapsto> k)) (enumerate n labels) d0 (labels ! i) = Some (n + i)"
proof (induction labels arbitrary: n d0 i)
  case Nil
  then show ?case by simp
next
  case (Cons a ls)
  show ?case
  proof (cases i)
    case 0
    with Cons.prems label_dict_other[of a ls "Suc n" "d0(a \<mapsto> n)"] show ?thesis
      by (simp del: fun_upd_apply) simp
  next
    case (Suc i')
    with Cons.prems Cons.IH[of i' "Suc n" "d0(a \<mapsto> n)"] show ?thesis
      by (simp del: fun_upd_apply)
  qed
qed

lemma index_of_nth:
  "distinct labels \<Longrightarrow> i < length labels \<Longrightarrow> index_of labels (labels ! i) = i"
  by (simp add: index_of_def label_to_ind_def label_dict_nth)

lemma index_of_other:
  "x \<notin> set labels \<Longrightarrow> index_of labels x = length labels + 1"
  by (simp add: index_of_def label_to_ind_def label_dict_other)

lemma index_of_eq_iff:
  assumes "distinct labels" "i < length labels"
  shows "index_of labels x = i \<longleftrightarrow> x = labels ! i"
proof (cases "x \<in> set labels")
  case True
  then obtain k where k: "k < length labels" "x = labels ! k"
    by (auto simp: in_set_conv_nth)
  with assms show ?thesis
    by (auto simp: index_of_nth nth_eq_iff_index_eq)
next
  case False
  with assms show ?thesis
    by (auto simp: index_of_other)
qed

lemma coo_fold_count:
  "fold (\<lambda>(t, p) c. c(t := (c t)(p := c t p + 1))) entries c0 i j
     = c0 i j + int (length (filter (\<lambda>e. e = (i, j)) entries))"
  by (induction entries arbitrary: c0) (auto split: prod.splits)

lemma cell_coo_toarray:
  "cell (coo_toarray n entries) i j = int (length (filter (\<lambda>e. e = (i, j)) entries))"
  by (simp add: coo_toarray_def coo_fold_count)

lemma zip_map_positions:
  assumes "length xs = length ys"
  shows "zip (map f xs) (map g ys) = map (\<lambda>k. (f (xs ! k), g (ys ! k))) [0..<length xs]"
  using assms by (intro nth_equalityI) auto

lemma confusion_cell:
  assumes "distinct labels" "length y_true = length y_pred"
    and "i < length labels" "j < length labels"
  shows "cell (coo_toarray (length labels)
                 (filter (\<lambda>(t, p). p < length labels \<and> t < length labels)
                    (zip (map (index_of labels) y_true) (map (index_of labels) y_pred)))) i j
         = int (card {k. k < length y_true \<and> y_true ! k = labels ! i
                                         \<and> y_pred ! k = labels ! j})"
proof -
  let ?n = "length labels"
  let ?g = "index_of labels"
  have "filter (\<lambda>e. e = (i, j))
          (filter (\<lambda>(t, p). p < ?n \<and> t < ?n) (zip (map ?g y_true) (map ?g y_pred)))
        = filter (\<lambda>e. e = (i, j)) (zip (map ?g y_true) (map ?g y_pred))"
    using assms(3,4) by (auto intro!: filter_cong)
  also have "\<dots> = filter (\<lambda>e. e = (i, j))
                     (map (\<lambda>k. (?g (y_true ! k), ?g (y_pred ! k))) [0..<length y_true])"
    by (simp only: zip_map_positions[OF assms(2)])
  finally have "cell (coo_toarray ?n
                 (filter (\<lambda>(t, p). p < ?n \<and> t < ?n)
                    (zip (map ?g y_true) (map ?g y_pred)))) i j
        = int (card {k. k < length y_true \<and> (?g (y_true ! k), ?g (y_pred ! k)) = (i, j)})"
    by (simp only: cell_coo_toarray count_positions)
  also have "{k. k < length y_true \<and> (?g (y_true ! k), ?g (y_pred ! k)) = (i, j)}
           = {k. k < length y_true \<and> y_true ! k = labels ! i \<and> y_pred ! k = labels ! j}"
    using assms(1,3,4) by (auto simp: index_of_eq_iff)
  finally show ?thesis .
qed

lemma confusion_matrix_counts:
  assumes "distinct class_labels" and "set class_labels = set actual"
    and run: "confusion_matrix actual predicted class_labels = Inr model_cm"
  shows "nrows model_cm = card (set actual)"
    and "ncols model_cm = card (set actual)"
    and "i < card (set actual) \<Longrightarrow> j < card (set actual) \<Longrightarrow>
           cell model_cm i j
             = int (card {k. k < length actual \<and> actual ! k = class_labels ! i
                                              \<and> predicted ! k = class_labels ! j})"
proof -
  have n: "length class_labels = card (set actual)"
    using assms(1,2) by (metis distinct_card)
  have empty: "actual = [] \<Longrightarrow> class_labels = []"
    using assms(2) by simp
  from run have len: "length actual = length predicted"
    and cm: "model_cm = coo_toarray (length class_labels)
                (filter (\<lambda>(t, p). p < length class_labels \<and> t < length class_labels)
                   (zip (map (index_of class_labels) actual)
                        (map (index_of class_labels) predicted)))"
    using empty by (auto simp: confusion_matrix_def split: if_splits)
  show "nrows model_cm = card (set actual)" "ncols model_cm = card (set actual)"
    by (simp_all add: cm coo_toarray_def n)
  show "cell model_cm i j
          = int (card {k. k < length actual \<and> actual ! k = class_labels ! i
                                           \<and> predicted ! k = class_labels ! j})"
    if "i < card (set actual)" "j < card (set actual)"
    unfolding cm using confusion_cell[OF assms(1) len, of i j] n that by simp
qed

lemma confusion_matrix_returns:
  assumes "set class_labels = set actual" "actual \<noteq> []" "length predicted = length actual"
  shows "\<exists>model_cm. confusion_matrix actual predicted class_labels = Inr model_cm"
proof -
  have "\<not> list_all (\<lambda>l. l \<notin> set actual) class_labels"
    using assms(1,2) by (cases actual) (auto simp: list_all_iff)
  then show ?thesis
    using assms by (auto simp: confusion_matrix_def)
qed

lemma confusion_matrix_Inr_lengths:
  "confusion_matrix y_true y_pred labels = Inr cm \<Longrightarrow>
   length y_pred = length y_true \<and> labels \<noteq> []
   \<and> nrows cm = length labels \<and> ncols cm = length labels"
  by (auto simp: confusion_matrix_def coo_toarray_def split: if_splits)

subsection \<open>The runs of rf\_predict\_actual and of the main script\<close>

lemma distinct_list_of_set[simp]: "distinct (list_of_set lib xs)"
  by (simp add: list_of_set_def)

lemma set_list_of_set [simp]: "set (list_of_set lib xs) = set xs"
  by (simp add: list_of_set_def)

lemma np_max_cells:
  assumes "0 < nrows a" "0 < ncols a"
  shows "\<exists>m. np_max np a = Inr m"
proof -
  from assms have "(0, 0) \<in> set (indices a)"
    by (simp add: indices_def)
  then have "indices a \<noteq> []" by auto
  then show ?thesis
    by (auto simp: np_max_def split: list.splits)
qed

lemma plot_of_confusion_matrix_returns:
  assumes "confusion_matrix y_true y_pred labels = Inr cm"
  shows "snd (plot_confusion_matrix np (as_int64 np cm) classes False title cmap) = Inr ()"
proof -
  from confusion_matrix_Inr_lengths[OF assms]
  have "0 < nrows (as_int64 np cm)" "0 < ncols (as_int64 np cm)"
    by (simp_all add: as_int64_def)
  from np_max_cells[OF this] obtain m where "np_max np (as_int64 np cm) = Inr m" by blast
  then show ?thesis
    by (simp add: plot_confusion_matrix_result shown_def)
qed

lemma rf_predict_actual_run:
  "rf_predict_actual lib data n =
     (case generate_features_targets (numpy lib) data of
        Inl e \<Rightarrow> ([Generate_features_targets data], Inl e)
      | Inr (features, targets) \<Rightarrow>
     (case RandomForestClassifier lib n of
        Inl e \<Rightarrow> ([Generate_features_targets data, Sk_RandomForestClassifier n], Inl e)
      | Inr rfc \<Rightarrow>
          ([Generate_features_targets data, Sk_RandomForestClassifier n,
            Sk_cross_val_predict rfc features targets 10],
           case cross_val_predict lib rfc features targets 10 of
             Inl e \<Rightarrow> Inl e
           | Inr predicted \<Rightarrow> Inr (predicted, targets))))"
  unfolding rf_predict_actual_def
  by (auto simp: then_run_def call_def split: sum.splits prod.splits)

lemma main_after_predictions:
  assumes "np_load lib ''galaxy_catalogue.npy'' = Inr data"
    and "rf_predict_actual lib data 50 = (calls, Inr (predicted, actual))"
    and "calculate_accuracy predicted actual = Inr accuracy"
    and "confusion_matrix actual predicted (list_of_set lib actual) = Inr model_cm"
  shows "main lib =
     (Np_load ''galaxy_catalogue.npy'' # calls
      @ [Calculate_accuracy predicted actual,
         Output (Print [Str ''Accuracy score:'', Number accuracy]),
         Sk_confusion_matrix actual predicted (list_of_set lib actual),
         Output Plt_figure,
         Plot_confusion_matrix (as_int64 (numpy lib) model_cm) (list_of_set lib actual) False]
      @ map Output (fst (plot_confusion_matrix (numpy lib) (as_int64 (numpy lib) model_cm)
                           (list_of_set lib actual) False ''Confusion matrix'' ''Blues''))
      @ [Output Plt_show],
      Inr \<lparr>final_data = data, final_number_estimators = 50,
            final_predicted = predicted, final_actual = actual,
            final_accuracy = accuracy, final_class_labels = list_of_set lib actual,
            final_model_cm = model_cm\<rparr>)"
  unfolding main_def Let_def
  using assms plot_of_confusion_matrix_returns[OF assms(4), of "numpy lib"]
  by (simp add: then_run_def call_def call_run_def outputs_def emits_def)

lemma main_Inr_cases:
  assumes "snd (main lib) = Inr g"
  obtains data calls predicted actual accuracy model_cm
  where "np_load lib ''galaxy_catalogue.npy'' = Inr data"
    and "rf_predict_actual lib data 50 = (calls, Inr (predicted, actual))"
    and "calculate_accuracy predicted actual = Inr accuracy"
    and "confusion_matrix actual predicted (list_of_set lib actual) = Inr model_cm"
proof -
  from assms show ?thesis
    unfolding main_def Let_def
    apply (simp add: then_run_def call_def call_run_def outputs_def emits_def
        split: sum.splits prod.splits)
    apply (metis prod.collapse that)
    done
qed

lemma calculate_accuracy_Inr_iff:
  "length predicted = length actual \<Longrightarrow> actual \<noteq> [] \<Longrightarrow>
   \<exists>accuracy. calculate_accuracy predicted actual = Inr accuracy"
  by (simp add: calculate_accuracy_def np_equal_def np_elementwise_def py_truediv_def)

lemma calculate_accuracy_Inr_nonempty:
  "calculate_accuracy predicted actual = Inr accuracy \<Longrightarrow> actual \<noteq> []"
  by (auto simp: calculate_accuracy_def np_equal_def np_elementwise_def py_truediv_def
      bind_err_def split: sum.splits if_splits)

lemma main_Inr_variables:
  assumes "snd (main lib) = Inr g"
  shows "calculate_accuracy (final_predicted g) (final_actual g) = Inr (final_accuracy g)"
    and "final_class_labels g = list_of_set lib (final_actual g)"
    and "confusion_matrix (final_actual g) (final_predicted g) (final_class_labels g)
           = Inr (final_model_cm g)"
    and "Sk_confusion_matrix (final_actual g) (final_predicted g) (final_class_labels g)
           \<in> set (fst (main lib))"
    and "Plot_confusion_matrix (as_int64 (numpy lib) (final_model_cm g))
           (final_class_labels g) False \<in> set (fst (main lib))"
proof -
  from assms obtain data calls predicted actual accuracy model_cm
    where load: "np_load lib ''galaxy_catalogue.npy'' = Inr data"
      and rf: "rf_predict_actual lib data 50 = (calls, Inr (predicted, actual))"
      and acc: "calculate_accuracy predicted actual = Inr accuracy"
      and cm: "confusion_matrix actual predicted (list_of_set lib actual) = Inr model_cm"
    by (rule main_Inr_cases)
  note run = main_after_predictions[OF load rf acc cm]
  with assms have g: "g = \<lparr>final_data = data, final_number_estimators = 50,
            final_predicted = predicted, final_actual = actual,
            final_accuracy = accuracy, final_class_labels = list_of_set lib actual,
            final_model_cm = model_cm\<rparr>"
    by simp
  show "calculate_accuracy (final_predicted g) (final_actual g) = Inr (final_accuracy g)"
    "final_class_labels g = list_of_set lib (final_actual g)"
    "confusion_matrix (final_actual g) (final_predicted g) (final_class_labels g)
           = Inr (final_model_cm g)"
    by (simp_all add: g acc cm)
  show "Sk_confusion_matrix (final_actual g) (final_predicted g) (final_class_labels g)
           \<in> set (fst (main lib))"
    "Plot_confusion_matrix (as_int64 (numpy lib) (final_model_cm g))
           (final_class_labels g) False \<in> set (fst (main lib))"
    by (simp_all add: run g)
qed

lemma example_load:
  "np_load example_library ''galaxy_catalogue.npy''
     = Inr [example_galaxy ''spiral'', example_galaxy ''merger'', example_galaxy ''spiral'']"
  by (simp add: example_library_def)

lemma example_targets:
  "\<exists>features. generate_features_targets (numpy example_library)
       [example_galaxy ''spiral'', example_galaxy ''merger'', example_galaxy ''spiral'']
     = Inr (features, [''spiral'', ''merger'', ''spiral''])"
  by (simp add: generate_features_targets_value example_galaxy_def store_U20_def)

lemma example_classifier: "RandomForestClassifier example_library 50 = Inr 50"
  by (simp add: example_library_def)

lemma example_predictions:
  "cross_val_predict example_library rfc features [''spiral'', ''merger'', ''spiral''] 10
     = Inr [''spiral'', ''spiral'', ''spiral'']"
  by (simp add: example_library_def)

lemma example_labels:
  "list_of_set example_library [''spiral'', ''merger'', ''spiral''] = [''merger'', ''spiral'']"
  by (simp add: list_of_set_def example_library_def)

lemma example_accuracy:
  "calculate_accuracy [''spiral'', ''spiral'', ''spiral''] [''spiral'', ''merger'', ''spiral'']
     = Inr (2 / 3)"
  by (simp add: calculate_accuracy_def np_equal_def np_elementwise_def py_sum_def
      py_truediv_def)

subsection \<open>The main script: its steps and its confusion matrix\<close>

text \<open>
  C4. What the main script executes, in order. When the four library calls return, with
  one prediction per sample and at least one sample, the run ends without exception
  and consists of exactly these calls, each on the result of the ones before: the
  array is loaded from \<^verbatim>\<open>'galaxy_catalogue.npy'\<close>; the features and targets are built
  from it; the random forest classifier is instantiated with 50 trees; the library
  cross-validation is called with the classifier, the features, the targets and
  \<^verbatim>\<open>cv=10\<close>; the accuracy is computed from the predictions and the actual labels (and
  printed); the library confusion matrix is computed from the actual labels, the
  predictions and the listed labels; that matrix is plotted (\<^verbatim>\<open>plt.figure\<close>, the calls
  of \<open>plot_confusion_matrix\<close> on it, \<^verbatim>\<open>plt.show\<close>). Every run that ends without
  exception is such a run.
\<close>

theorem main_steps_in_order:
  "(np_load lib ''galaxy_catalogue.npy'' = Inr data
     \<and> generate_features_targets (numpy lib) data = Inr (features, targets)
     \<and> RandomForestClassifier lib 50 = Inr rfc
     \<and> cross_val_predict lib rfc features targets 10 = Inr predicted
     \<and> length predicted = length targets \<and> targets \<noteq> [] \<longrightarrow>
    (\<exists>accuracy model_cm.
       calculate_accuracy predicted targets = Inr accuracy
     \<and> confusion_matrix targets predicted (list_of_set lib targets) = Inr model_cm
     \<and> main lib =
         ([Np_load ''galaxy_catalogue.npy'',
           Generate_features_targets data,
           Sk_RandomForestClassifier 50,
           Sk_cross_val_predict rfc features targets 10,
           Calculate_accuracy predicted targets,
           Output (Print [Str ''Accuracy score:'', Number accuracy]),
           Sk_confusion_matrix targets predicted (list_of_set lib targets),
           Output Plt_figure,
           Plot_confusion_matrix (as_int64 (numpy lib) model_cm) (list_of_set lib targets)
             False]
          @ map Output
              (fst (plot_confusion_matrix (numpy lib) (as_int64 (numpy lib) model_cm)
                      (list_of_set lib targets) False ''Confusion matrix'' ''Blues''))
          @ [Output Plt_show],
          Inr \<lparr>final_data = data, final_number_estimators = 50,
                final_predicted = predicted, final_actual = targets,
                final_accuracy = accuracy, final_class_labels = list_of_set lib targets,
                final_model_cm = model_cm\<rparr>)))
   \<and> (snd (main lib) = Inr g \<longrightarrow>
        (\<exists>features rfc.
           np_load lib ''galaxy_catalogue.npy'' = Inr (final_data g)
         \<and> generate_features_targets (numpy lib) (final_data g)
             = Inr (features, final_actual g)
         \<and> RandomForestClassifier lib 50 = Inr rfc
         \<and> cross_val_predict lib rfc features (final_actual g) 10 = Inr (final_predicted g)
         \<and> length (final_predicted g) = length (final_actual g)
         \<and> final_actual g \<noteq> []))"
proof (intro conjI impI)
  assume h: "np_load lib ''galaxy_catalogue.npy'' = Inr data
     \<and> generate_features_targets (numpy lib) data = Inr (features, targets)
     \<and> RandomForestClassifier lib 50 = Inr rfc
     \<and> cross_val_predict lib rfc features targets 10 = Inr predicted
     \<and> length predicted = length targets \<and> targets \<noteq> []"
  then obtain accuracy where acc: "calculate_accuracy predicted targets = Inr accuracy"
    using calculate_accuracy_Inr_iff by blast
  from h obtain model_cm
    where cm: "confusion_matrix targets predicted (list_of_set lib targets) = Inr model_cm"
    using confusion_matrix_returns[of "list_of_set lib targets" targets predicted] by auto
  from h have rf: "rf_predict_actual lib data 50 =
      ([Generate_features_targets data, Sk_RandomForestClassifier 50,
        Sk_cross_val_predict rfc features targets 10], Inr (predicted, targets))"
    by (simp add: rf_predict_actual_run)
  from h have load: "np_load lib ''galaxy_catalogue.npy'' = Inr data" by simp
  show "\<exists>accuracy model_cm.
       calculate_accuracy predicted targets = Inr accuracy
     \<and> confusion_matrix targets predicted (list_of_set lib targets) = Inr model_cm
     \<and> main lib =
         ([Np_load ''galaxy_catalogue.npy'',
           Generate_features_targets data,
           Sk_RandomForestClassifier 50,
           Sk_cross_val_predict rfc features targets 10,
           Calculate_accuracy predicted targets,
           Output (Print [Str ''Accuracy score:'', Number accuracy]),
           Sk_confusion_matrix targets predicted (list_of_set lib targets),
           Output Plt_figure,
           Plot_confusion_matrix (as_int64 (numpy lib) model_cm) (list_of_set lib targets)
             False]
          @ map Output
              (fst (plot_confusion_matrix (numpy lib) (as_int64 (numpy lib) model_cm)
                      (list_of_set lib targets) False ''Confusion matrix'' ''Blues''))
          @ [Output Plt_show],
          Inr \<lparr>final_data = data, final_number_estimators = 50,
                final_predicted = predicted, final_actual = targets,
                final_accuracy = accuracy, final_class_labels = list_of_set lib targets,
                final_model_cm = model_cm\<rparr>)"
    using main_after_predictions[OF load rf acc cm] acc cm by auto
next
  assume "snd (main lib) = Inr g"
  then obtain data calls predicted actual accuracy model_cm
    where load: "np_load lib ''galaxy_catalogue.npy'' = Inr data"
      and rf: "rf_predict_actual lib data 50 = (calls, Inr (predicted, actual))"
      and acc: "calculate_accuracy predicted actual = Inr accuracy"
      and cm: "confusion_matrix actual predicted (list_of_set lib actual) = Inr model_cm"
      and g: "g = \<lparr>final_data = data, final_number_estimators = 50,
            final_predicted = predicted, final_actual = actual,
            final_accuracy = accuracy, final_class_labels = list_of_set lib actual,
            final_model_cm = model_cm\<rparr>"
    by (metis main_Inr_cases main_after_predictions snd_conv sum.inject(2))
  from rf obtain features rfc
    where "generate_features_targets (numpy lib) data = Inr (features, actual)"
      "RandomForestClassifier lib 50 = Inr rfc"
      "cross_val_predict lib rfc features actual 10 = Inr predicted"
    by (auto simp: rf_predict_actual_run split: sum.splits prod.splits)
  with load acc cm g
  show "\<exists>features rfc.
           np_load lib ''galaxy_catalogue.npy'' = Inr (final_data g)
         \<and> generate_features_targets (numpy lib) (final_data g)
             = Inr (features, final_actual g)
         \<and> RandomForestClassifier lib 50 = Inr rfc
         \<and> cross_val_predict lib rfc features (final_actual g) 10 = Inr (final_predicted g)
         \<and> length (final_predicted g) = length (final_actual g)
         \<and> final_actual g \<noteq> []"
    using confusion_matrix_Inr_lengths[OF cm] calculate_accuracy_Inr_nonempty[OF acc]
    by auto
qed

theorem main_steps_in_order_witness:
  "\<exists>features model_cm.
     main example_library =
       ([Np_load ''galaxy_catalogue.npy'',
         Generate_features_targets
           [example_galaxy ''spiral'', example_galaxy ''merger'', example_galaxy ''spiral''],
         Sk_RandomForestClassifier 50,
         Sk_cross_val_predict 50 features [''spiral'', ''merger'', ''spiral''] 10,
         Calculate_accuracy [''spiral'', ''spiral'', ''spiral'']
           [''spiral'', ''merger'', ''spiral''],
         Output (Print [Str ''Accuracy score:'', Number (2 / 3)]),
         Sk_confusion_matrix [''spiral'', ''merger'', ''spiral'']
           [''spiral'', ''spiral'', ''spiral''] [''merger'', ''spiral''],
         Output Plt_figure,
         Plot_confusion_matrix (as_int64 exact_numpy model_cm) [''merger'', ''spiral'']
           False]
        @ map Output
            (fst (plot_confusion_matrix exact_numpy (as_int64 exact_numpy model_cm)
                    [''merger'', ''spiral''] False ''Confusion matrix'' ''Blues''))
        @ [Output Plt_show],
        Inr \<lparr>final_data =
                [example_galaxy ''spiral'', example_galaxy ''merger'',
                 example_galaxy ''spiral''],
              final_number_estimators = 50,
              final_predicted = [''spiral'', ''spiral'', ''spiral''],
              final_actual = [''spiral'', ''merger'', ''spiral''],
              final_accuracy = 2 / 3,
              final_class_labels = [''merger'', ''spiral''],
              final_model_cm = model_cm\<rparr>)"
proof -
  let ?data = "[example_galaxy ''spiral'', example_galaxy ''merger'', example_galaxy ''spiral'']"
  let ?targets = "[''spiral'', ''merger'', ''spiral'']"
  let ?predicted = "[''spiral'', ''spiral'', ''spiral'']"
  obtain features
    where build: "generate_features_targets (numpy example_library) ?data
                    = Inr (features, ?targets)"
    using example_targets by blast
  have np: "numpy example_library = exact_numpy"
    by (simp add: example_library_def)
  from main_steps_in_order
         [of example_library ?data features ?targets 50 ?predicted, THEN conjunct1]
       example_load build example_classifier example_predictions[of 50 features]
  obtain accuracy model_cm
    where acc: "calculate_accuracy ?predicted ?targets = Inr accuracy"
      and run: "main example_library =
         ([Np_load ''galaxy_catalogue.npy'',
           Generate_features_targets ?data,
           Sk_RandomForestClassifier 50,
           Sk_cross_val_predict 50 features ?targets 10,
           Calculate_accuracy ?predicted ?targets,
           Output (Print [Str ''Accuracy score:'', Number accuracy]),
           Sk_confusion_matrix ?targets ?predicted (list_of_set example_library ?targets),
           Output Plt_figure,
           Plot_confusion_matrix (as_int64 (numpy example_library) model_cm)
             (list_of_set example_library ?targets) False]
          @ map Output
              (fst (plot_confusion_matrix (numpy example_library)
                      (as_int64 (numpy example_library) model_cm)
                      (list_of_set example_library ?targets) False
                      ''Confusion matrix'' ''Blues''))
          @ [Output Plt_show],
          Inr \<lparr>final_data = ?data, final_number_estimators = 50,
                final_predicted = ?predicted, final_actual = ?targets,
                final_accuracy = accuracy,
                final_class_labels = list_of_set example_library ?targets,
                final_model_cm = model_cm\<rparr>)"
    by auto
  from acc have "accuracy = 2 / 3"
    by (simp add: example_accuracy)
  with run show ?thesis
    unfolding example_labels np by blast
qed

text \<open>
  C3. The confusion matrix of the main script. In every run that ends without
  exception, \<^verbatim>\<open>actual\<close> holds the targets built from the loaded catalogue and
  \<^verbatim>\<open>predicted\<close> the cross-validated predictions; \<^verbatim>\<open>class_labels\<close> is
  \<^verbatim>\<open>list(set(actual))\<close>, each actual label once; the library function is called with
  \<^verbatim>\<open>y_true=actual, y_pred=predicted, labels=class_labels\<close>; and \<^verbatim>\<open>model_cm\<close>, the
  matrix it returns and the one that is plotted, is square with as many rows and
  columns as there are distinct actual labels, its entry at \<open>(i, j)\<close> being the number of
  samples whose true class is \<open>class_labels[i]\<close> and whose predicted class is
  \<open>class_labels[j]\<close>. The run ends without exception whenever the library calls return
  one prediction per sample for at least one sample.
\<close>

theorem main_confusion_matrix_square_counts:
  "(snd (main lib) = Inr g \<longrightarrow>
      (\<exists>features rfc.
          np_load lib ''galaxy_catalogue.npy'' = Inr (final_data g)
        \<and> generate_features_targets (numpy lib) (final_data g)
            = Inr (features, final_actual g)
        \<and> RandomForestClassifier lib 50 = Inr rfc
        \<and> cross_val_predict lib rfc features (final_actual g) 10 = Inr (final_predicted g))
    \<and> final_class_labels g = list_of_set lib (final_actual g)
    \<and> distinct (final_class_labels g)
    \<and> set (final_class_labels g) = set (final_actual g)
    \<and> Sk_confusion_matrix (final_actual g) (final_predicted g) (final_class_labels g)
         \<in> set (fst (main lib))
    \<and> confusion_matrix (final_actual g) (final_predicted g) (final_class_labels g)
         = Inr (final_model_cm g)
    \<and> nrows (final_model_cm g) = card (set (final_actual g))
    \<and> ncols (final_model_cm g) = card (set (final_actual g))
    \<and> (\<forall>i<card (set (final_actual g)). \<forall>j<card (set (final_actual g)).
          cell (final_model_cm g) i j
            = int (card {k. k < length (final_actual g)
                            \<and> final_actual g ! k = final_class_labels g ! i
                            \<and> final_predicted g ! k = final_class_labels g ! j}))
    \<and> Plot_confusion_matrix (as_int64 (numpy lib) (final_model_cm g))
         (final_class_labels g) False \<in> set (fst (main lib)))
   \<and> (np_load lib ''galaxy_catalogue.npy'' = Inr data
        \<and> generate_features_targets (numpy lib) data = Inr (features, targets)
        \<and> RandomForestClassifier lib 50 = Inr rfc
        \<and> cross_val_predict lib rfc features targets 10 = Inr predicted
        \<and> length predicted = length targets \<and> targets \<noteq> [] \<longrightarrow>
      (\<exists>g. snd (main lib) = Inr g))"
proof (intro conjI impI)
  assume ret: "snd (main lib) = Inr g"
  note vars = main_Inr_variables[OF ret]
  have labels: "distinct (final_class_labels g)"
    "set (final_class_labels g) = set (final_actual g)"
    by (simp_all add: vars(2))
  note counts = confusion_matrix_counts[OF labels vars(3)]
  from ret obtain data calls predicted actual accuracy model_cm
    where load: "np_load lib ''galaxy_catalogue.npy'' = Inr data"
      and rf: "rf_predict_actual lib data 50 = (calls, Inr (predicted, actual))"
      and acc: "calculate_accuracy predicted actual = Inr accuracy"
      and cm: "confusion_matrix actual predicted (list_of_set lib actual) = Inr model_cm"
    by (rule main_Inr_cases)
  from main_after_predictions[OF load rf acc cm] ret
  have g: "final_data g = data" "final_actual g = actual" "final_predicted g = predicted"
    by auto
  from rf show "\<exists>features rfc.
          np_load lib ''galaxy_catalogue.npy'' = Inr (final_data g)
        \<and> generate_features_targets (numpy lib) (final_data g)
            = Inr (features, final_actual g)
        \<and> RandomForestClassifier lib 50 = Inr rfc
        \<and> cross_val_predict lib rfc features (final_actual g) 10 = Inr (final_predicted g)"
    unfolding g using load
    by (auto simp: rf_predict_actual_run split: sum.splits prod.splits)
  show "final_class_labels g = list_of_set lib (final_actual g)" by (rule vars(2))
  show "distinct (final_class_labels g)" by (rule labels(1))
  show "set (final_class_labels g) = set (final_actual g)" by (rule labels(2))
  show "Sk_confusion_matrix (final_actual g) (final_predicted g) (final_class_labels g)
         \<in> set (fst (main lib))" by (rule vars(4))
  show "confusion_matrix (final_actual g) (final_predicted g) (final_class_labels g)
         = Inr (final_model_cm g)" by (rule vars(3))
  show "nrows (final_model_cm g) = card (set (final_actual g))" by (rule counts(1))
  show "ncols (final_model_cm g) = card (set (final_actual g))" by (rule counts(2))
  show "\<forall>i<card (set (final_actual g)). \<forall>j<card (set (final_actual g)).
          cell (final_model_cm g) i j
            = int (card {k. k < length (final_actual g)
                            \<and> final_actual g ! k = final_class_labels g ! i
                            \<and> final_predicted g ! k = final_class_labels g ! j})"
    using counts(3) by blast
  show "Plot_confusion_matrix (as_int64 (numpy lib) (final_model_cm g))
         (final_class_labels g) False \<in> set (fst (main lib))" by (rule vars(5))
next
  assume h: "np_load lib ''galaxy_catalogue.npy'' = Inr data
        \<and> generate_features_targets (numpy lib) data = Inr (features, targets)
        \<and> RandomForestClassifier lib 50 = Inr rfc
        \<and> cross_val_predict lib rfc features targets 10 = Inr predicted
        \<and> length predicted = length targets \<and> targets \<noteq> []"
  then obtain accuracy where acc: "calculate_accuracy predicted targets = Inr accuracy"
    using calculate_accuracy_Inr_iff by blast
  from h obtain model_cm
    where cm: "confusion_matrix targets predicted (list_of_set lib targets) = Inr model_cm"
    using confusion_matrix_returns[of "list_of_set lib targets" targets predicted] by auto
  from h have rf: "rf_predict_actual lib data 50 =
      ([Generate_features_targets data, Sk_RandomForestClassifier 50,
        Sk_cross_val_predict rfc features targets 10], Inr (predicted, targets))"
    by (simp add: rf_predict_actual_run)
  from h have load: "np_load lib ''galaxy_catalogue.npy'' = Inr data" by simp
  from main_after_predictions[OF load rf acc cm]
  show "\<exists>g. snd (main lib) = Inr g" by simp
qed

theorem main_confusion_matrix_square_counts_witness:
  "\<exists>g. snd (main example_library) = Inr g
      \<and> final_actual g = [''spiral'', ''merger'', ''spiral'']
      \<and> final_predicted g = [''spiral'', ''spiral'', ''spiral'']
      \<and> final_class_labels g = [''merger'', ''spiral'']
      \<and> nrows (final_model_cm g) = 2 \<and> ncols (final_model_cm g) = 2
      \<and> cell (final_model_cm g) 0 0 = 0 \<and> cell (final_model_cm g) 0 1 = 1
      \<and> cell (final_model_cm g) 1 0 = 0 \<and> cell (final_model_cm g) 1 1 = 2"
proof -
  let ?data = "[example_galaxy ''spiral'', example_galaxy ''merger'', example_galaxy ''spiral'']"
  let ?actual = "[''spiral'', ''merger'', ''spiral'']"
  let ?predicted = "[''spiral'', ''spiral'', ''spiral'']"
  let ?labels = "[''merger'', ''spiral'']"
  obtain features0
    where build: "generate_features_targets (numpy example_library) ?data
                    = Inr (features0, ?actual)"
    using example_targets by blast
  note at = main_confusion_matrix_square_counts
              [where lib = example_library and data = ?data and features = features0
                 and targets = ?actual and rfc = 50 and predicted = ?predicted]
  from at[THEN conjunct2] example_load build example_classifier
    example_predictions[of 50 features0]
  obtain g where ret: "snd (main example_library) = Inr g"
    by auto
  note props = at[where g = g, THEN conjunct1, rule_format, OF ret]
  from props example_load have data: "final_data g = ?data" by auto
  with props build have actual: "final_actual g = ?actual" by auto
  with props example_predictions have predicted: "final_predicted g = ?predicted"
    by auto
  from props have labels: "final_class_labels g = ?labels"
    by (simp add: actual example_labels)
  have c: "card (set ?actual) = 2"
    by (simp add: card_insert_if)
  from props have shape: "nrows (final_model_cm g) = 2" "ncols (final_model_cm g) = 2"
    unfolding actual c by blast+
  from props have cells: "\<And>i j. i < 2 \<Longrightarrow> j < 2 \<Longrightarrow>
      cell (final_model_cm g) i j
        = int (card {k. k < length ?actual \<and> ?actual ! k = ?labels ! i
                                         \<and> ?predicted ! k = ?labels ! j})"
    unfolding actual predicted labels c by blast
  have "{k. k < length ?actual \<and> ?actual ! k = ?labels ! 0 \<and> ?predicted ! k = ?labels ! 0}
          = {}"
    by (auto simp: less_Suc_eq nth_Cons')
  with cells[of 0 0] have c00: "cell (final_model_cm g) 0 0 = 0" by simp
  have "{k. k < length ?actual \<and> ?actual ! k = ?labels ! 0 \<and> ?predicted ! k = ?labels ! 1}
          = {1}"
    by (auto simp: less_Suc_eq nth_Cons')
  with cells[of 0 1] have c01: "cell (final_model_cm g) 0 1 = 1" by simp
  have "{k. k < length ?actual \<and> ?actual ! k = ?labels ! 1 \<and> ?predicted ! k = ?labels ! 0}
          = {}"
    by (auto simp: less_Suc_eq nth_Cons')
  with cells[of 1 0] have c10: "cell (final_model_cm g) 1 0 = 0" by simp
  have "{k. k < length ?actual \<and> ?actual ! k = ?labels ! 1 \<and> ?predicted ! k = ?labels ! 1}
          = {0, 2}"
    by (auto simp: less_Suc_eq nth_Cons')
  with cells[of 1 1] have c11: "cell (final_model_cm g) 1 1 = 2" by simp
  show ?thesis
    using ret actual predicted labels shape c00 c01 c10 c11 by blast
qed

end
